theory Spec2Isabelle
  imports Complex_Main "HOL-Library.AList" "HOL-Library.Log_Nat"
begin

section \<open>JavaScript numbers\<close>

text \<open>
  The progress values of \<^verbatim>\<open>routes/video.ts\<close> are JavaScript numbers, that is IEEE-754
  doubles. A finite double is represented by the rational it denotes, \<open>NaN\<close> is a value of
  its own. Infinities, negative zero, overflow and subnormal results are left out: every
  number the routes compute lies between 0 and 100.
\<close>

datatype jsnum = NaN | Fin rat

definition pow2 :: "int \<Rightarrow> rat" where
  "pow2 k = (if 0 \<le> k then 2 ^ nat k else 1 / 2 ^ nat (- k))"

definition ilog2 :: "rat \<Rightarrow> int" where
  \<comment> \<open>the binary exponent of a positive rational: \<open>2 ^ ilog2 x \<le> x < 2 ^ (ilog2 x + 1)\<close>\<close>
  "ilog2 x =
     (if 1 \<le> x then bitlen \<lfloor>x\<rfloor> - 1
      else let b = bitlen \<lfloor>1 / x\<rfloor> in if pow2 (1 - b) \<le> x then 1 - b else - b)"

definition round_half_even :: "rat \<Rightarrow> int" where
  "round_half_even x =
     (let f = \<lfloor>x\<rfloor>; r = x - of_int f
      in if r < 1 / 2 then f
         else if 1 / 2 < r then f + 1
         else if even f then f else f + 1)"

definition to_double :: "rat \<Rightarrow> rat" where
  \<comment> \<open>round to nearest, ties to even, with a significand of 53 bits\<close>
  "to_double x =
     (if x = 0 then 0
      else let a = \<bar>x\<bar>; q = pow2 (ilog2 a - 52)
           in sgn x * of_int (round_half_even (a / q)) * q)"

fun js_mul :: "jsnum \<Rightarrow> jsnum \<Rightarrow> jsnum" where
  "js_mul (Fin a) (Fin b) = Fin (to_double (a * b))"
| "js_mul _ _ = NaN"

fun js_add :: "jsnum \<Rightarrow> jsnum \<Rightarrow> jsnum" where
  "js_add (Fin a) (Fin b) = Fin (to_double (a + b))"
| "js_add _ _ = NaN"

fun Math_round :: "jsnum \<Rightarrow> jsnum" where
  \<comment> \<open>\<^verbatim>\<open>Math.round\<close>: the nearest integer, a tie going towards plus infinity\<close>
  "Math_round NaN = NaN"
| "Math_round (Fin x) = Fin (of_int \<lfloor>x + 1 / 2\<rfloor>)"

definition lit_0_7 :: jsnum where
  \<comment> \<open>the literal \<^verbatim>\<open>0.7\<close>: the double nearest to seven tenths\<close>
  "lit_0_7 = Fin (to_double (7 / 10))"

text \<open>
  \<^verbatim>\<open>interface ProcessingProgress { progress: number; message: string; timestamp: number }\<close>
  of \<^verbatim>\<open>services/videoProcessing.ts\<close>, and the values a progress callback can be handed:
  a number, or such an object. \<^verbatim>\<open>ToNumber\<close> of a plain object is \<open>NaN\<close>.
\<close>

record ProcessingProgress =
  progress :: jsnum
  message :: string
  timestamp :: int

datatype jsval = JNum jsnum | JObj ProcessingProgress

fun ToNumber :: "jsval \<Rightarrow> jsnum" where
  "ToNumber (JNum n) = n"
| "ToNumber (JObj _) = NaN"

section \<open>The job registry: \<^verbatim>\<open>services/cleanup.ts\<close>\<close>

datatype JobStatus = processing | completed | failed

text \<open>Dates are milliseconds since the epoch, as \<^verbatim>\<open>Date.getTime()\<close> gives them.\<close>

record FileJob =
  job_id :: string
  filePath :: string
  outputPath :: "string option"
  createdAt :: int
  expiresAt :: int
  status :: JobStatus

text \<open>
  What is handed to the WebSocket server for broadcast. \<^verbatim>\<open>removeJob\<close> broadcasts the job
  with the status \<^verbatim>\<open>'expired'\<close>, which no stored record has. The timestamps and texts of
  the JSON payloads are not modelled.
\<close>

datatype BroadcastStatus = Stored JobStatus | expired

datatype WsMessage =
    JobUpdateMsg string BroadcastStatus
  | ProcessingProgressMsg string jsnum
  | ProcessingCancelledMsg string

text \<open>
  The disk: the directory entries in the order in which a directory lists them, each with
  its modification time, the paths on which \<^verbatim>\<open>unlinkSync\<close> throws (a directory, a
  file that is busy or not ours to delete), and the paths on which \<^verbatim>\<open>readdirSync\<close> throws
  (not a directory, or one we may not read). An entry without a modification time is one
  on which \<^verbatim>\<open>statSync\<close> throws and which \<^verbatim>\<open>existsSync\<close> denies, such as a symbolic link
  whose target is gone; \<^verbatim>\<open>readdirSync\<close> lists it all the same.
\<close>

record FileSystem =
  files :: "(string \<times> int option) list"
  undeletable :: "string list"
  unlistable :: "string list"

datatype FsError = ENOENT | EPERM | ENOTDIR

definition statSync :: "FileSystem \<Rightarrow> string \<Rightarrow> FsError + int" where
  "statSync fsys p =
     (case map_of (files fsys) p of
        None \<Rightarrow> Inl ENOENT
      | Some None \<Rightarrow> Inl ENOENT
      | Some (Some m) \<Rightarrow> Inr m)"

definition existsSync :: "FileSystem \<Rightarrow> string \<Rightarrow> bool" where
  \<comment> \<open>\<^verbatim>\<open>existsSync\<close> is false whenever the path cannot be stat'ed\<close>
  "existsSync fsys p = (case statSync fsys p of Inl e \<Rightarrow> False | Inr m \<Rightarrow> True)"

definition unlinkSync :: "FileSystem \<Rightarrow> string \<Rightarrow> FsError + FileSystem" where
  "unlinkSync fsys p =
     (if map_of (files fsys) p = None then Inl ENOENT
      else if p \<in> set (undeletable fsys) then Inl EPERM
      else Inr (fsys\<lparr>files := AList.delete p (files fsys)\<rparr>))"

definition writeFileSync :: "FileSystem \<Rightarrow> string \<Rightarrow> int \<Rightarrow> FileSystem" where
  "writeFileSync fsys p mtime = fsys\<lparr>files := AList.update p (Some mtime) (files fsys)\<rparr>"

definition tmpdir :: string where
  \<comment> \<open>\<^verbatim>\<open>os.tmpdir()\<close> of the deployment image\<close>
  "tmpdir = ''/tmp''"

definition join :: "string \<Rightarrow> string \<Rightarrow> string" where
  "join d name = d @ ''/'' @ name"

definition penguinblurDir :: string where
  "penguinblurDir = join tmpdir ''penguinblur''"

definition child_name :: "string \<Rightarrow> string \<Rightarrow> string option" where
  \<comment> \<open>the name under which the file \<open>p\<close> is an entry of the directory \<open>d\<close>\<close>
  "child_name d p =
     (let pre = d @ ''/''; name = drop (length pre) p
      in if take (length pre) p = pre \<and> name \<noteq> [] \<and> CHR ''/'' \<notin> set name
         then Some name else None)"

definition dir_entries :: "FileSystem \<Rightarrow> string \<Rightarrow> string list" where
  "dir_entries fsys d = List.map_filter (\<lambda>(p, m). child_name d p) (files fsys)"

definition readdirSync :: "FileSystem \<Rightarrow> string \<Rightarrow> FsError + string list" where
  "readdirSync fsys d =
     (if d \<in> set (unlistable fsys) then Inl ENOTDIR else Inr (dir_entries fsys d))"

text \<open>
  In-flight runs of \<^verbatim>\<open>processVideoAsync\<close>: each is suspended at one of its two
  \<^verbatim>\<open>await\<close>s, on face detection or on transcoding.
\<close>

datatype Stage = AwaitDetect | AwaitTranscode

record Task =
  taskFileId :: string
  taskInput :: string
  taskBlurIntensity :: string
  taskDetectionMode :: string
  stage :: Stage

text \<open>
  The state of the server process: the \<^verbatim>\<open>activeJobs\<close> map of the cleanup service and the
  \<^verbatim>\<open>processingProgress\<close> map of the video routes (JavaScript maps, kept here in
  insertion order), the disk, the suspended orchestrations and the messages broadcast so
  far.
\<close>

record ServerState =
  activeJobs :: "(string \<times> FileJob) list"
  processingProgress :: "(string \<times> jsnum) list"
  disk :: FileSystem
  tasks :: "Task list"
  outbox :: "WsMessage list"

definition initial_state :: ServerState where
  "initial_state =
     \<lparr>activeJobs = [], processingProgress = [],
      disk = \<lparr>files = [], undeletable = [], unlistable = []\<rparr>, tasks = [], outbox = []\<rparr>"

definition broadcast :: "WsMessage \<Rightarrow> ServerState \<Rightarrow> ServerState" where
  "broadcast m s = s\<lparr>outbox := outbox s @ [m]\<rparr>"

definition broadcastJobUpdate :: "FileJob \<Rightarrow> ServerState \<Rightarrow> ServerState" where
  "broadcastJobUpdate job s = broadcast (JobUpdateMsg (job_id job) (Stored (status job))) s"

definition addJob :: "FileJob \<Rightarrow> ServerState \<Rightarrow> ServerState" where
  "addJob job s =
     broadcastJobUpdate job (s\<lparr>activeJobs := AList.update (job_id job) job (activeJobs s)\<rparr>)"

definition truthy :: "string option \<Rightarrow> bool" where
  \<comment> \<open>\<^verbatim>\<open>if (outputPath)\<close>: defined and not the empty string\<close>
  "truthy p = (case p of None \<Rightarrow> False | Some x \<Rightarrow> x \<noteq> [])"

definition updateJobStatus :: "string \<Rightarrow> JobStatus \<Rightarrow> string option \<Rightarrow> ServerState \<Rightarrow> ServerState" where
  "updateJobStatus jobId st out s =
     (case map_of (activeJobs s) jobId of
        None \<Rightarrow> s
      | Some job \<Rightarrow>
          let job1 = job\<lparr>status := st\<rparr>;
              job2 = (if truthy out then job1\<lparr>outputPath := out\<rparr> else job1)
          in broadcastJobUpdate job2 (s\<lparr>activeJobs := AList.update jobId job2 (activeJobs s)\<rparr>))"

definition deleteFileIfExists :: "string \<Rightarrow> FileSystem \<Rightarrow> FileSystem" where
  \<comment> \<open>an exception of \<^verbatim>\<open>unlinkSync\<close> is caught and logged\<close>
  "deleteFileIfExists p fsys =
     (if existsSync fsys p
      then (case unlinkSync fsys p of Inl e \<Rightarrow> fsys | Inr fsys' \<Rightarrow> fsys')
      else fsys)"

definition removeJob :: "string \<Rightarrow> ServerState \<Rightarrow> ServerState" where
  "removeJob jobId s =
     (case map_of (activeJobs s) jobId of
        None \<Rightarrow> s
      | Some job \<Rightarrow>
          let d1 = deleteFileIfExists (filePath job) (disk s);
              d2 = (if truthy (outputPath job) then deleteFileIfExists (the (outputPath job)) d1 else d1)
          in broadcast (JobUpdateMsg (job_id job) expired)
               (s\<lparr>disk := d2, activeJobs := AList.delete jobId (activeJobs s)\<rparr>))"

definition getJob :: "string \<Rightarrow> ServerState \<Rightarrow> FileJob option" where
  "getJob jobId s = map_of (activeJobs s) jobId"

definition getAllJobs :: "ServerState \<Rightarrow> FileJob list" where
  "getAllJobs s = map snd (activeJobs s)"

fun cleanupTempFiles_loop :: "int \<Rightarrow> int \<Rightarrow> string list \<Rightarrow> FileSystem \<Rightarrow> FileSystem" where
  "cleanupTempFiles_loop now expiryTimeMs [] fsys = fsys"
| "cleanupTempFiles_loop now expiryTimeMs (file # rest) fsys =
     (let p = join penguinblurDir file
      in case statSync fsys p of
           Inl e \<Rightarrow> fsys
         | Inr mtime \<Rightarrow>
             cleanupTempFiles_loop now expiryTimeMs rest
               (if now - mtime > expiryTimeMs
                then (case unlinkSync fsys p of Inl e \<Rightarrow> fsys | Inr fsys' \<Rightarrow> fsys')
                else fsys))"

definition cleanupTempFiles :: "int \<Rightarrow> int \<Rightarrow> ServerState \<Rightarrow> ServerState" where
  \<comment> \<open>\<^verbatim>\<open>statSync\<close> is called outside the inner \<^verbatim>\<open>try\<close>: its exception leaves the loop
      through the outer \<^verbatim>\<open>catch\<close> and the entries after it are not looked at; an
      exception of \<^verbatim>\<open>readdirSync\<close> is caught there as well;
      a directory that does not exist has no entries\<close>
  "cleanupTempFiles now expiryTimeMs s =
     (case readdirSync (disk s) penguinblurDir of
        Inl err \<Rightarrow> s
      | Inr names \<Rightarrow> s\<lparr>disk := cleanupTempFiles_loop now expiryTimeMs names (disk s)\<rparr>)"

definition expiredJobs :: "int \<Rightarrow> ServerState \<Rightarrow> string list" where
  "expiredJobs now s = map fst (filter (\<lambda>(jobId, job). now > expiresAt job) (activeJobs s))"

definition cleanup :: "int \<Rightarrow> int \<Rightarrow> int \<Rightarrow> ServerState \<Rightarrow> ServerState" where
  \<comment> \<open>\<open>now\<close> is the clock read by \<^verbatim>\<open>cleanup\<close>, \<open>now'\<close> the one read by
      \<^verbatim>\<open>cleanupTempFiles\<close> a moment later\<close>
  "cleanup now now' expiryTimeMs s =
     cleanupTempFiles now' expiryTimeMs (foldl (\<lambda>s' jobId. removeJob jobId s') s (expiredJobs now s))"

section \<open>The upload routes: \<^verbatim>\<open>routes/upload.ts\<close>\<close>

record StatusData =
  st_fileId :: string
  st_status :: JobStatus
  st_createdAt :: int
  st_expiresAt :: int
  timeRemaining :: int
  downloadUrl :: "string option"
  st_progress :: "jsnum option"

datatype Response =
    Failure nat string
  | Success string
  | UploadOk string int
  | ProcessingStarted string
  | StatusOk StatusData
  | FileStream string

definition not_found :: Response where
  "not_found = Failure 404 ''File not found or has expired''"

definition upload_route :: "string option \<Rightarrow> string \<Rightarrow> int \<Rightarrow> ServerState \<Rightarrow> Response \<times> ServerState" where
  \<comment> \<open>\<open>file\<close> is \<^verbatim>\<open>req.file.path\<close>, \<open>fileId\<close> the fresh \<^verbatim>\<open>uuidv4()\<close>, \<open>now\<close> the clock\<close>
  "upload_route file fileId now s =
     (case file of
        None \<Rightarrow> (Failure 400 ''No file uploaded'', s)
      | Some p \<Rightarrow>
          let expires = now + 15 * 60 * 1000
          in (UploadOk fileId expires,
              addJob \<lparr>job_id = fileId, filePath = p, outputPath = None, createdAt = now,
                      expiresAt = expires, status = processing\<rparr> s))"

definition upload_status_route :: "string \<Rightarrow> int \<Rightarrow> ServerState \<Rightarrow> Response" where
  "upload_status_route fileId now s =
     (case getJob fileId s of
        None \<Rightarrow> not_found
      | Some job \<Rightarrow>
          StatusOk \<lparr>st_fileId = job_id job, st_status = status job, st_createdAt = createdAt job,
                    st_expiresAt = expiresAt job, timeRemaining = max 0 (expiresAt job - now),
                    downloadUrl = (if truthy (outputPath job)
                                   then Some (''/api/video/download/'' @ fileId) else None),
                    st_progress = None\<rparr>)"

definition delete_route :: "string \<Rightarrow> ServerState \<Rightarrow> Response \<times> ServerState" where
  "delete_route fileId s =
     (case getJob fileId s of
        None \<Rightarrow> (not_found, s)
      | Some job \<Rightarrow> (Success ''File deleted successfully'', removeJob fileId s))"

section \<open>The video routes: \<^verbatim>\<open>routes/video.ts\<close>\<close>

definition getProcessingProgress :: "string \<Rightarrow> ServerState \<Rightarrow> jsnum" where
  \<comment> \<open>\<^verbatim>\<open>processingProgress.get(fileId) || 0\<close>: \<open>undefined\<close>, \<open>NaN\<close> and \<open>0\<close> are falsy\<close>
  "getProcessingProgress fileId s =
     (case map_of (processingProgress s) fileId of
        None \<Rightarrow> Fin 0
      | Some NaN \<Rightarrow> Fin 0
      | Some (Fin x) \<Rightarrow> (if x = 0 then Fin 0 else Fin x))"

definition broadcastProgress :: "string \<Rightarrow> jsnum \<Rightarrow> ServerState \<Rightarrow> ServerState" where
  "broadcastProgress fileId p s =
     broadcast (ProcessingProgressMsg fileId p)
       (s\<lparr>processingProgress := AList.update fileId p (processingProgress s)\<rparr>)"

definition cancelProcessing :: "string \<Rightarrow> ServerState \<Rightarrow> ServerState" where
  \<comment> \<open>``For now, just remove from progress tracking'': the suspended run is not touched\<close>
  "cancelProcessing fileId s =
     broadcast (ProcessingCancelledMsg fileId)
       (s\<lparr>processingProgress := AList.delete fileId (processingProgress s)\<rparr>)"

definition totalProgress :: "jsval \<Rightarrow> jsnum" where
  \<comment> \<open>\<^verbatim>\<open>Math.round(30 + (progress * 0.7))\<close>\<close>
  "totalProgress v = Math_round (js_add (Fin 30) (js_mul (ToNumber v) lit_0_7))"

definition onProgress :: "string \<Rightarrow> jsval \<Rightarrow> ServerState \<Rightarrow> ServerState" where
  \<comment> \<open>the callback \<^verbatim>\<open>processVideoAsync\<close> hands to \<^verbatim>\<open>processVideo\<close>\<close>
  "onProgress fileId v s = broadcastProgress fileId (totalProgress v) s"

definition generateOutputPath :: "string \<Rightarrow> string \<Rightarrow> string" where
  \<comment> \<open>\<open>ts\<close> is the ISO timestamp with its colons and dots replaced, \<open>uid\<close> a fresh uuid\<close>
  "generateOutputPath ts uid =
     join (join tmpdir ''penguinblur'') (''processed-'' @ ts @ ''-'' @ uid @ ''.mp4'')"

text \<open>
  \<^verbatim>\<open>processVideoAsync\<close>, cut at its two \<^verbatim>\<open>await\<close>s. The part before the first one runs
  inside the request handler; each later part runs when the awaited service settles.
\<close>

definition processVideoAsync_begin :: "string \<Rightarrow> string \<Rightarrow> string \<Rightarrow> string \<Rightarrow> ServerState \<Rightarrow> ServerState" where
  "processVideoAsync_begin fileId inputPath blurIntensity detectionMode s =
     (let s1 = broadcastProgress fileId (Fin 0) s
      in s1\<lparr>tasks := tasks s1 @
               [\<lparr>taskFileId = fileId, taskInput = inputPath, taskBlurIntensity = blurIntensity,
                 taskDetectionMode = detectionMode, stage = AwaitDetect\<rparr>]\<rparr>)"

definition processVideoAsync_catch :: "string \<Rightarrow> ServerState \<Rightarrow> ServerState" where
  "processVideoAsync_catch fileId s =
     broadcastProgress fileId (Fin 0) (updateJobStatus fileId failed None s)"

definition processVideoAsync_detected :: "string \<Rightarrow> ServerState \<Rightarrow> ServerState" where
  "processVideoAsync_detected fileId s = broadcastProgress fileId (Fin 30) s"

definition processVideoAsync_done :: "string \<Rightarrow> string \<Rightarrow> ServerState \<Rightarrow> ServerState" where
  "processVideoAsync_done fileId out s =
     broadcastProgress fileId (Fin 100) (updateJobStatus fileId completed (Some out) s)"

definition process_route :: "string \<Rightarrow> string \<Rightarrow> string \<Rightarrow> ServerState \<Rightarrow> Response \<times> ServerState" where
  \<comment> \<open>the \<^verbatim>\<open>catch\<close> of the handler is not reachable: calling an \<^verbatim>\<open>async\<close> function never throws\<close>
  "process_route fileId blurIntensity detectionMode s =
     (case getJob fileId s of
        None \<Rightarrow> (not_found, s)
      | Some job \<Rightarrow>
          if status job = processing
          then (Failure 400 ''File is already being processed'', s)
          else (ProcessingStarted fileId,
                processVideoAsync_begin fileId (filePath job) blurIntensity detectionMode
                  (updateJobStatus fileId processing None s)))"

definition download_route :: "string \<Rightarrow> ServerState \<Rightarrow> Response" where
  "download_route fileId s =
     (case getJob fileId s of
        None \<Rightarrow> not_found
      | Some job \<Rightarrow>
          if status job \<noteq> completed \<or> \<not> truthy (outputPath job)
          then Failure 400 ''Video processing not completed''
          else if \<not> existsSync (disk s) (the (outputPath job))
          then Failure 404 ''Processed file not found''
          else FileStream (the (outputPath job)))"

definition video_status_route :: "string \<Rightarrow> int \<Rightarrow> ServerState \<Rightarrow> Response" where
  "video_status_route fileId now s =
     (case getJob fileId s of
        None \<Rightarrow> not_found
      | Some job \<Rightarrow>
          StatusOk \<lparr>st_fileId = job_id job, st_status = status job, st_createdAt = createdAt job,
                    st_expiresAt = expiresAt job, timeRemaining = max 0 (expiresAt job - now),
                    downloadUrl = (if truthy (outputPath job)
                                   then Some (''/api/video/download/'' @ fileId) else None),
                    st_progress = Some (if status job = processing
                                        then getProcessingProgress fileId s else Fin 100)\<rparr>)"

definition cancel_route :: "string \<Rightarrow> ServerState \<Rightarrow> Response \<times> ServerState" where
  "cancel_route fileId s =
     (case getJob fileId s of
        None \<Rightarrow> (not_found, s)
      | Some job \<Rightarrow>
          if status job \<noteq> processing
          then (Failure 400 ''File is not currently being processed'', s)
          else (Success ''Processing cancelled'',
                updateJobStatus fileId failed None (cancelProcessing fileId s)))"

section \<open>Runs of the server\<close>

text \<open>
  One event is one turn of the event loop: a request handled to its response, a tick of
  the cleanup timer, or the continuation of a suspended \<^verbatim>\<open>processVideoAsync\<close>. Whether
  and when face detection and transcoding settle or report progress is the environment's
  choice; the stand-ins of the repository resolve whenever the input file exists. An
  upload stores the file under \<^verbatim>\<open>penguinblurDir\<close> (multer's disk storage) before its handler
  runs. A task event names the task by its position in \<open>tasks\<close> and is refused (\<open>None\<close>)
  when there is no such task or it waits for something else.
\<close>

datatype Event =
    Upload "(string \<times> int) option" string int
  | ProcessReq string string string
  | CancelReq string
  | DeleteReq string
  | CleanupTick int int int
  | DetectResolves nat
  | DetectRejects nat
  | ProgressReport nat jsval
  | TranscodeResolves nat string string int
  | TranscodeRejects nat

definition waiting :: "ServerState \<Rightarrow> nat \<Rightarrow> Stage \<Rightarrow> bool" where
  "waiting s i st = (i < length (tasks s) \<and> stage (tasks s ! i) = st)"

definition drop_task :: "nat \<Rightarrow> ServerState \<Rightarrow> ServerState" where
  "drop_task i s = s\<lparr>tasks := take i (tasks s) @ drop (Suc i) (tasks s)\<rparr>"

fun step :: "Event \<Rightarrow> ServerState \<Rightarrow> ServerState option" where
  "step (Upload None fileId now) s = Some (snd (upload_route None fileId now s))"
| "step (Upload (Some (name, mtime)) fileId now) s =
     (let p = join penguinblurDir name
      in Some (snd (upload_route (Some p) fileId now (s\<lparr>disk := writeFileSync (disk s) p mtime\<rparr>))))"
| "step (ProcessReq fileId blurIntensity detectionMode) s =
     Some (snd (process_route fileId blurIntensity detectionMode s))"
| "step (CancelReq fileId) s = Some (snd (cancel_route fileId s))"
| "step (DeleteReq fileId) s = Some (snd (delete_route fileId s))"
| "step (CleanupTick now now' expiryTimeMs) s = Some (cleanup now now' expiryTimeMs s)"
| "step (DetectResolves i) s =
     (if waiting s i AwaitDetect
      then Some (processVideoAsync_detected (taskFileId (tasks s ! i))
                   (s\<lparr>tasks := (tasks s)[i := (tasks s ! i)\<lparr>stage := AwaitTranscode\<rparr>]\<rparr>))
      else None)"
| "step (DetectRejects i) s =
     (if waiting s i AwaitDetect
      then Some (processVideoAsync_catch (taskFileId (tasks s ! i)) (drop_task i s))
      else None)"
| "step (ProgressReport i v) s =
     (if waiting s i AwaitTranscode
      then Some (onProgress (taskFileId (tasks s ! i)) v s)
      else None)"
| "step (TranscodeResolves i ts uid now) s =
     (if waiting s i AwaitTranscode
      then let out = generateOutputPath ts uid
           in Some (processVideoAsync_done (taskFileId (tasks s ! i)) out
                      (drop_task i (s\<lparr>disk := writeFileSync (disk s) out now\<rparr>)))
      else None)"
| "step (TranscodeRejects i) s =
     (if waiting s i AwaitTranscode
      then Some (processVideoAsync_catch (taskFileId (tasks s ! i)) (drop_task i s))
      else None)"

fun exec :: "Event list \<Rightarrow> ServerState \<Rightarrow> ServerState option" where
  "exec [] s = Some s"
| "exec (e # es) s = (case step e s of None \<Rightarrow> None | Some s' \<Rightarrow> exec es s')"

section \<open>Example runs\<close>

definition upload_path :: string where
  "upload_path = join penguinblurDir ''3f2c.mp4''"

definition uploaded_state :: ServerState where
  \<comment> \<open>one upload, stored at time 1000 and admitted at time 1001\<close>
  "uploaded_state = the (step (Upload (Some (''3f2c.mp4'', 1000)) ''job-1'' 1001) initial_state)"

definition cancelled_state :: ServerState where
  "cancelled_state = snd (cancel_route ''job-1'' uploaded_state)"

definition stage_report :: ProcessingProgress where
  \<comment> \<open>what the second tick of \<^verbatim>\<open>processVideoWithBlur\<close> passes to the callback\<close>
  "stage_report = \<lparr>progress = Fin 4, message = ''Analyzing video...'', timestamp = 3400\<rparr>"

definition job1 :: FileJob where
  \<comment> \<open>the record that upload admits\<close>
  "job1 = \<lparr>job_id = ''job-1'', filePath = upload_path, outputPath = None, createdAt = 1001,
            expiresAt = 901001, status = processing\<rparr>"

definition duplicate_job :: FileJob where
  "duplicate_job = \<lparr>job_id = ''job-1'', filePath = join penguinblurDir ''77aa.mov'',
            outputPath = None, createdAt = 5000, expiresAt = 905000, status = processing\<rparr>"

definition reprocessing_state :: ServerState where
  "reprocessing_state = snd (process_route ''job-1'' ''medium'' ''auto'' cancelled_state)"

definition transcoding_state :: ServerState where
  "transcoding_state = the (step (DetectResolves 0) reprocessing_state)"

definition cancelled_again_state :: ServerState where
  "cancelled_again_state = snd (cancel_route ''job-1'' transcoding_state)"

definition output_path :: string where
  "output_path = generateOutputPath ''1970-01-01T00-00-03-000Z'' ''9b1d''"

definition finished_state :: ServerState where
  "finished_state =
     the (step (TranscodeResolves 0 ''1970-01-01T00-00-03-000Z'' ''9b1d'' 13000)
            cancelled_again_state)"

definition reprocessed_state :: ServerState where
  "reprocessed_state = snd (process_route ''job-1'' ''medium'' ''auto'' finished_state)"

definition cancel_race :: "Event list" where
  \<comment> \<open>upload, cancel, process, detection done, cancel again, transcoding done\<close>
  "cancel_race =
     [Upload (Some (''3f2c.mp4'', 1000)) ''job-1'' 1001,
      CancelReq ''job-1'',
      ProcessReq ''job-1'' ''medium'' ''auto'',
      DetectResolves 0,
      CancelReq ''job-1'',
      TranscodeResolves 0 ''1970-01-01T00-00-03-000Z'' ''9b1d'' 13000]"


section \<open>Predicates of the properties\<close>




definition gone :: "FileSystem \<Rightarrow> string \<Rightarrow> bool" where
  \<comment> \<open>the outcome of a best-effort deletion: the file is no longer there, or it could not
      be deleted\<close>
  "gone d p = (\<not> existsSync d p \<or> p \<in> set (undeletable d))"

definition outputs_recorded :: "ServerState \<Rightarrow> bool" where
  "outputs_recorded s =
     list_all (\<lambda>(k, job). status job = completed \<longrightarrow> truthy (outputPath job)) (activeJobs s)"

definition well_formed :: "ServerState \<Rightarrow> bool" where
  \<comment> \<open>a JavaScript map has one entry for a key, a directory one file for a path\<close>
  "well_formed s = (distinct (map fst (activeJobs s)) \<and> distinct (map fst (files (disk s))))"

section \<open>Evaluating doubles\<close>

lemma bitlen_numeral: "bitlen (numeral n) = 1 + bitlen (numeral n div 2)"
  by (subst compute_bitlen) simp

lemma bitlen_one: "bitlen 1 = 1"
  by (subst compute_bitlen) simp

lemma floor_rat_numeral: "\<lfloor>numeral a / numeral b :: rat\<rfloor> = numeral a div numeral b"
  using floor_divide_of_int_eq [of "numeral a" "numeral b", where ?'a = rat] by simp

lemmas double_eval =
  to_double_def ilog2_def bitlen_numeral bitlen_one floor_rat_numeral pow2_def
  round_half_even_def Let_def

lemma lit_0_7_value: "lit_0_7 = Fin (3152519739159347 / 4503599627370496)"
  by (simp add: lit_0_7_def double_eval)

text \<open>
  The arithmetic is that of doubles: \<^verbatim>\<open>45 * 0.7\<close> is \<^verbatim>\<open>31.499999999999996\<close>, and adding 30
  rounds to \<^verbatim>\<open>61.5\<close>.
\<close>

lemma to_double_product:
  "js_mul (Fin 45) lit_0_7 = Fin (8866461766385663 / 281474976710656)
    \<and> js_add (Fin 30) (js_mul (Fin 45) lit_0_7) = Fin (123 / 2)"
  by (simp add: lit_0_7_value double_eval)

text \<open>The double arithmetic of the callback, run at every percentage.\<close>

lemma totalProgress_cases:
  "list_all (\<lambda>p. totalProgress (JNum (Fin (of_int p))) = Fin (of_int ((7 * p + 305) div 10)))
     (0 # 1 # [2..100])"
proof -
  define ok where
    "ok p \<longleftrightarrow> totalProgress (JNum (Fin (of_int p))) = Fin (of_int ((7 * p + 305) div 10))" for p
  have "list_all ok (0 # 1 # [2..100])"
    apply simp
    apply (simp add: ok_def totalProgress_def lit_0_7_value)
    apply (simp add: double_eval)
    done
  then show ?thesis unfolding ok_def .
qed

lemma totalProgress_percent:
  assumes "0 \<le> p" and "p \<le> 100"
  shows "totalProgress (JNum (Fin (of_int p))) = Fin (of_int ((7 * p + 305) div 10))"
proof -
  from assms have "p = 0 \<or> p = 1 \<or> p \<in> {2..100}" by auto
  then have "p \<in> set (0 # 1 # [2..100])" unfolding list.set set_upto by blast
  with totalProgress_cases show ?thesis unfolding list_all_iff by blast
qed

section \<open>Progress\<close>

text \<open>
  C7, as the code has it. The callback rounds to the nearest integer where the claim takes
  the floor: for a stage progress that is a number \<open>p\<close> between 0 and 100, the progress
  recorded in \<open>processingProgress\<close> and broadcast is \<^verbatim>\<open>Math.round(30 + p * 0.7)\<close>, which is
  \<open>(7 * p + 305) div 10\<close>, the sum \<open>30 + 7 * p / 10\<close> with a half rounded upwards.
\<close>

theorem onProgress_rounds:
  assumes "0 \<le> p" and "p \<le> 100"
  shows "totalProgress (JNum (Fin (of_int p))) = Fin (of_int ((7 * p + 305) div 10))
    \<and> map_of (processingProgress (onProgress f (JNum (Fin (of_int p))) s)) f
        = Some (Fin (of_int ((7 * p + 305) div 10)))
    \<and> outbox (onProgress f (JNum (Fin (of_int p))) s)
        = outbox s @ [ProcessingProgressMsg f (Fin (of_int ((7 * p + 305) div 10)))]"
  using totalProgress_percent [OF assms]
  by (simp add: onProgress_def broadcastProgress_def broadcast_def update_conv')

theorem onProgress_rounds_witness:
  "(0::int) \<le> 45 \<and> (45::int) \<le> 100
    \<and> totalProgress (JNum (Fin 45)) = Fin 62
    \<and> map_of (processingProgress (onProgress ''job-1'' (JNum (Fin 45)) initial_state)) ''job-1''
        = Some (Fin 62)
    \<and> outbox (onProgress ''job-1'' (JNum (Fin 45)) initial_state)
        = [ProcessingProgressMsg ''job-1'' (Fin 62)]"
  using onProgress_rounds [of 45 "''job-1''" initial_state]
  by (simp add: initial_state_def)

text \<open>
  C7 as stated fails at the stage progress 4: \<open>30 + floor (4 * 0.7)\<close> is 32, the callback
  records 33 when it is handed the number, and \<open>NaN\<close> when it is handed the progress
  object of \<^verbatim>\<open>processVideoWithBlur\<close>.
\<close>

theorem onProgress_floor_counterexample:
  "totalProgress (JNum (Fin 4)) = Fin 33
    \<and> 30 + \<lfloor>(4::rat) * (7 / 10)\<rfloor> = 32
    \<and> totalProgress (JObj stage_report) = NaN"
proof -
  have "totalProgress (JNum (Fin (of_int 4))) = Fin (of_int ((7 * 4 + 305) div 10))"
    by (rule totalProgress_percent) simp_all
  then have "totalProgress (JNum (Fin 4)) = Fin 33" by simp
  moreover have "30 + \<lfloor>(4::rat) * (7 / 10)\<rfloor> = 32" by (simp add: floor_rat_numeral)
  moreover have "totalProgress (JObj stage_report) = NaN" by (simp add: totalProgress_def)
  ultimately show ?thesis by blast
qed

section \<open>Facts about the registry and the routes\<close>

lemma activeJobs_broadcast [simp]: "activeJobs (broadcast m s) = activeJobs s"
  by (simp add: broadcast_def)
lemma tasks_broadcast [simp]: "tasks (broadcast m s) = tasks s"
  by (simp add: broadcast_def)
lemma disk_broadcast [simp]: "disk (broadcast m s) = disk s"
  by (simp add: broadcast_def)
lemma processingProgress_broadcast [simp]: "processingProgress (broadcast m s) = processingProgress s"
  by (simp add: broadcast_def)

lemma getJob_addJob: "getJob g (addJob job s) = (if g = job_id job then Some job else getJob g s)"
  by (simp add: getJob_def addJob_def broadcastJobUpdate_def update_conv')

lemma getJob_updateJobStatus:
  "getJob g (updateJobStatus f st out s) =
     (if g = f
      then map_option (\<lambda>job. if truthy out then job\<lparr>status := st, outputPath := out\<rparr>
                               else job\<lparr>status := st\<rparr>) (getJob f s)
      else getJob g s)"
  by (simp add: getJob_def updateJobStatus_def broadcastJobUpdate_def update_conv' Let_def
           split: option.splits)

lemma tasks_updateJobStatus [simp]: "tasks (updateJobStatus f st out s) = tasks s"
  by (simp add: updateJobStatus_def broadcastJobUpdate_def Let_def split: option.splits)
lemma disk_updateJobStatus [simp]: "disk (updateJobStatus f st out s) = disk s"
  by (simp add: updateJobStatus_def broadcastJobUpdate_def Let_def split: option.splits)
lemma processingProgress_updateJobStatus [simp]:
  "processingProgress (updateJobStatus f st out s) = processingProgress s"
  by (simp add: updateJobStatus_def broadcastJobUpdate_def Let_def split: option.splits)

lemma getJob_broadcastProgress [simp]: "getJob g (broadcastProgress f p s) = getJob g s"
  by (simp add: getJob_def broadcastProgress_def)
lemma tasks_broadcastProgress [simp]: "tasks (broadcastProgress f p s) = tasks s"
  by (simp add: broadcastProgress_def)
lemma getJob_cancelProcessing [simp]: "getJob g (cancelProcessing f s) = getJob g s"
  by (simp add: getJob_def cancelProcessing_def)
lemma tasks_cancelProcessing [simp]: "tasks (cancelProcessing f s) = tasks s"
  by (simp add: cancelProcessing_def)

lemma getJob_disk_update [simp]: "getJob g (s\<lparr>disk := d\<rparr>) = getJob g s"
  by (simp add: getJob_def)
lemma getJob_tasks_update [simp]: "getJob g (s\<lparr>tasks := t\<rparr>) = getJob g s"
  by (simp add: getJob_def)
lemma getJob_drop_task [simp]: "getJob g (drop_task i s) = getJob g s"
  by (simp add: getJob_def drop_task_def)
lemma truthy_generateOutputPath [simp]: "truthy (Some (generateOutputPath ts uid))"
  by (simp add: truthy_def generateOutputPath_def join_def)
lemma truthy_None [simp]: "\<not> truthy None"
  by (simp add: truthy_def)

lemma getJob_removeJob: "getJob g (removeJob f s) = (if g = f then None else getJob g s)"
  by (simp add: getJob_def removeJob_def delete_conv' Let_def split: option.splits)

lemma getJob_foldl_removeJob:
  "getJob g (foldl (\<lambda>s' k. removeJob k s') s ks) = (if g \<in> set ks then None else getJob g s)"
  by (induction ks arbitrary: s) (auto simp: getJob_removeJob)

lemma getJob_cleanupTempFiles [simp]: "getJob g (cleanupTempFiles now e s) = getJob g s"
  by (simp add: cleanupTempFiles_def split: sum.splits)

lemma getJob_cleanup:
  "getJob g (cleanup now now' e s) = (if g \<in> set (expiredJobs now s) then None else getJob g s)"
  by (simp add: cleanup_def getJob_foldl_removeJob)

lemma map_of_expired:
  "map_of al g = Some j \<Longrightarrow> now > expiresAt j
    \<Longrightarrow> g \<in> fst ` set (filter (\<lambda>(jobId, job). now > expiresAt job) al)"
  by (induction al) (auto split: if_splits)

lemma expired_in_expiredJobs:
  "getJob g s = Some j \<Longrightarrow> now > expiresAt j \<Longrightarrow> g \<in> set (expiredJobs now s)"
  unfolding getJob_def expiredJobs_def set_map by (rule map_of_expired)

lemma expired_map_of:
  "distinct (map fst al) \<Longrightarrow> g \<in> fst ` set (filter (\<lambda>(jobId, job). now > expiresAt job) al)
    \<Longrightarrow> \<exists>j. map_of al g = Some j \<and> now > expiresAt j"
  by (induction al) (auto split: if_splits simp: rev_image_eqI)

lemma expiredJobs_iff:
  "distinct (map fst (activeJobs s))
    \<Longrightarrow> g \<in> set (expiredJobs now s) \<longleftrightarrow> (\<exists>j. getJob g s = Some j \<and> now > expiresAt j)"
  using expired_map_of [of "activeJobs s" g now] expired_in_expiredJobs [of g s _ now]
  unfolding expiredJobs_def getJob_def set_map by blast

lemma undeletable_deleteFileIfExists [simp]:
  "undeletable (deleteFileIfExists p d) = undeletable d"
  by (simp add: deleteFileIfExists_def unlinkSync_def)

lemma gone_deleteFileIfExists_same: "gone (deleteFileIfExists p d) p"
  by (simp add: gone_def deleteFileIfExists_def unlinkSync_def existsSync_def statSync_def
        delete_conv' split: option.splits)

lemma gone_deleteFileIfExists: "gone d q \<Longrightarrow> gone (deleteFileIfExists p d) q"
  by (auto simp: gone_def deleteFileIfExists_def unlinkSync_def existsSync_def statSync_def
        delete_conv' split: option.splits)

lemma undeletable_removeJob [simp]: "undeletable (disk (removeJob f s)) = undeletable (disk s)"
  by (simp add: removeJob_def Let_def split: option.splits)

lemma gone_removeJob: "gone (disk s) q \<Longrightarrow> gone (disk (removeJob f s)) q"
  by (simp add: removeJob_def Let_def gone_deleteFileIfExists split: option.splits)

lemma gone_removeJob_files:
  assumes "getJob f s = Some j"
  shows "gone (disk (removeJob f s)) (filePath j)"
    and "truthy (outputPath j) \<Longrightarrow> gone (disk (removeJob f s)) (the (outputPath j))"
  using assms gone_deleteFileIfExists_same [of "filePath j" "disk s"]
    gone_deleteFileIfExists_same [of "the (outputPath j)" "deleteFileIfExists (filePath j) (disk s)"]
    gone_deleteFileIfExists [of "deleteFileIfExists (filePath j) (disk s)" "filePath j" "the (outputPath j)"]
  by (simp_all add: removeJob_def getJob_def Let_def)

lemma gone_foldl_removeJob:
  "gone (disk s) q \<Longrightarrow> gone (disk (foldl (\<lambda>s' k. removeJob k s') s ks)) q"
proof (induction ks arbitrary: s)
  case Nil
  then show ?case by simp
next
  case (Cons k ks)
  from Cons.prems have "gone (disk (removeJob k s)) q" by (rule gone_removeJob)
  then show ?case using Cons.IH [of "removeJob k s"] by simp
qed

lemma foldl_removeJob_files:
  assumes "g \<in> set ks" and "getJob g s = Some j"
  shows "gone (disk (foldl (\<lambda>s' k. removeJob k s') s ks)) (filePath j)
    \<and> (truthy (outputPath j) \<longrightarrow> gone (disk (foldl (\<lambda>s' k. removeJob k s') s ks)) (the (outputPath j)))"
  using assms
proof (induction ks arbitrary: s)
  case Nil
  then show ?case by simp
next
  case (Cons k ks)
  show ?case
  proof (cases "k = g")
    case True
    with Cons.prems gone_removeJob_files [of g s j]
    show ?thesis using gone_foldl_removeJob [of "removeJob g s" _ ks] by simp
  next
    case False
    with Cons.prems have "g \<in> set ks" and "getJob g (removeJob k s) = Some j"
      by (simp_all add: getJob_removeJob)
    then show ?thesis using Cons.IH [of "removeJob k s"] by simp
  qed
qed

lemma gone_unlinkSync: "gone d q \<Longrightarrow> unlinkSync d p = Inr d' \<Longrightarrow> gone d' q"
  by (auto simp: gone_def unlinkSync_def existsSync_def statSync_def delete_conv'
        split: if_splits option.splits)

lemma gone_loop: "gone d q \<Longrightarrow> gone (cleanupTempFiles_loop now e names d) q"
proof (induction names arbitrary: d)
  case Nil
  then show ?case by simp
next
  case (Cons n names)
  show ?case
    using Cons.prems Cons.IH gone_unlinkSync [OF Cons.prems]
    by (simp add: Let_def split: sum.splits)
qed

lemma gone_cleanupTempFiles:
  "gone (disk s) q \<Longrightarrow> gone (disk (cleanupTempFiles now e s)) q"
  by (simp add: cleanupTempFiles_def gone_loop split: sum.splits)



lemma join_inject [simp]: "join d n = join d n' \<longleftrightarrow> n = n'"
  by (simp add: join_def)





lemma list_all_update:
  "list_all P al \<Longrightarrow> P (k, v) \<Longrightarrow> list_all P (AList.update k v al)"
  by (induction al) auto

lemma list_all_delete: "list_all P al \<Longrightarrow> list_all P (AList.delete k al)"
  by (induction al) auto

lemma outputs_recorded_cong:
  "activeJobs s' = activeJobs s \<Longrightarrow> outputs_recorded s' = outputs_recorded s"
  by (simp add: outputs_recorded_def)

lemma outputs_recorded_addJob:
  "outputs_recorded s \<Longrightarrow> status job \<noteq> completed \<Longrightarrow> outputs_recorded (addJob job s)"
  by (simp add: outputs_recorded_def addJob_def broadcastJobUpdate_def list_all_update)

lemma outputs_recorded_updateJobStatus:
  assumes "outputs_recorded s" and "st = completed \<longrightarrow> truthy out"
  shows "outputs_recorded (updateJobStatus f st out s)"
proof (cases "map_of (activeJobs s) f")
  case None
  with assms show ?thesis by (simp add: updateJobStatus_def)
next
  case (Some job)
  with assms show ?thesis
    by (auto simp: outputs_recorded_def updateJobStatus_def broadcastJobUpdate_def Let_def
          intro!: list_all_update)
qed

lemma outputs_recorded_removeJob: "outputs_recorded s \<Longrightarrow> outputs_recorded (removeJob f s)"
  by (simp add: outputs_recorded_def removeJob_def Let_def list_all_delete split: option.splits)

lemma outputs_recorded_foldl_removeJob:
  "outputs_recorded s \<Longrightarrow> outputs_recorded (foldl (\<lambda>s' k. removeJob k s') s ks)"
  by (induction ks arbitrary: s) (simp_all add: outputs_recorded_removeJob)

lemma outputs_recorded_cleanup: "outputs_recorded s \<Longrightarrow> outputs_recorded (cleanup now now' e s)"
  using outputs_recorded_foldl_removeJob [of s "expiredJobs now s"]
  by (simp add: cleanup_def cleanupTempFiles_def outputs_recorded_def split: sum.splits)

lemma outputs_recorded_broadcastProgress [simp]:
  "outputs_recorded (broadcastProgress f p s) = outputs_recorded s"
  by (simp add: outputs_recorded_def broadcastProgress_def)

lemma outputs_recorded_cancelProcessing [simp]:
  "outputs_recorded (cancelProcessing f s) = outputs_recorded s"
  by (simp add: outputs_recorded_def cancelProcessing_def)

lemma outputs_recorded_tasks [simp]: "outputs_recorded (s\<lparr>tasks := t\<rparr>) = outputs_recorded s"
  by (simp add: outputs_recorded_def)

lemma outputs_recorded_disk [simp]: "outputs_recorded (s\<lparr>disk := d\<rparr>) = outputs_recorded s"
  by (simp add: outputs_recorded_def)

lemma outputs_recorded_step:
  assumes "outputs_recorded s" and "step ev s = Some s'"
  shows "outputs_recorded s'"
proof (cases ev)
  case (Upload upl fileId now)
  with assms show ?thesis
    by (cases upl)
       (auto simp: upload_route_def Let_def intro!: outputs_recorded_addJob)
next
  case (ProcessReq f b m)
  with assms show ?thesis
    by (auto simp: process_route_def processVideoAsync_begin_def Let_def
          intro!: outputs_recorded_updateJobStatus split: option.splits if_splits)
next
  case (CancelReq f)
  with assms show ?thesis
    by (auto simp: cancel_route_def intro!: outputs_recorded_updateJobStatus
          split: option.splits if_splits)
next
  case (DeleteReq f)
  with assms show ?thesis
    by (auto simp: delete_route_def intro!: outputs_recorded_removeJob split: option.splits)
next
  case (CleanupTick now now' e)
  with assms show ?thesis by (auto intro!: outputs_recorded_cleanup)
next
  case (DetectResolves i)
  with assms show ?thesis
    by (auto simp: processVideoAsync_detected_def split: if_splits)
next
  case (DetectRejects i)
  with assms show ?thesis
    by (auto simp: processVideoAsync_catch_def drop_task_def
          intro!: outputs_recorded_updateJobStatus split: if_splits)
next
  case (ProgressReport i v)
  with assms show ?thesis by (auto simp: onProgress_def split: if_splits)
next
  case (TranscodeResolves i ts uid now)
  with assms show ?thesis
    by (auto simp: processVideoAsync_done_def drop_task_def Let_def
          intro!: outputs_recorded_updateJobStatus split: if_splits)
next
  case (TranscodeRejects i)
  with assms show ?thesis
    by (auto simp: processVideoAsync_catch_def drop_task_def
          intro!: outputs_recorded_updateJobStatus split: if_splits)
qed

lemma outputs_recorded_exec:
  "outputs_recorded s \<Longrightarrow> exec es s = Some s' \<Longrightarrow> outputs_recorded s'"
  by (induction es arbitrary: s) (auto split: option.splits dest: outputs_recorded_step)

text \<open>Every state of a run is well formed, so the theorems below that ask for distinct keys
  apply to it.\<close>

lemma distinct_files_deleteFileIfExists:
  "distinct (map fst (files d)) \<Longrightarrow> distinct (map fst (files (deleteFileIfExists p d)))"
  by (simp add: deleteFileIfExists_def unlinkSync_def distinct_delete)

lemma distinct_files_loop:
  "distinct (map fst (files d)) \<Longrightarrow> distinct (map fst (files (cleanupTempFiles_loop now e names d)))"
proof (induction names arbitrary: d)
  case Nil
  then show ?case by simp
next
  case (Cons n names)
  have "distinct (map fst (files d'))" if "unlinkSync d p = Inr d'" for p d'
    using that Cons.prems by (auto simp: unlinkSync_def distinct_delete split: if_splits)
  with Cons show ?case by (simp add: Let_def split: sum.splits)
qed

lemma well_formed_removeJob: "well_formed s \<Longrightarrow> well_formed (removeJob f s)"
  by (simp add: well_formed_def removeJob_def Let_def distinct_delete
        distinct_files_deleteFileIfExists split: option.splits)

lemma well_formed_foldl_removeJob:
  "well_formed s \<Longrightarrow> well_formed (foldl (\<lambda>s' k. removeJob k s') s ks)"
  by (induction ks arbitrary: s) (simp_all add: well_formed_removeJob)

lemma well_formed_cleanup: "well_formed s \<Longrightarrow> well_formed (cleanup now now' e s)"
  using well_formed_foldl_removeJob [of s "expiredJobs now s"]
  by (simp add: cleanup_def cleanupTempFiles_def well_formed_def distinct_files_loop
        split: sum.splits)

lemma well_formed_updateJobStatus: "well_formed s \<Longrightarrow> well_formed (updateJobStatus f st out s)"
  by (simp add: well_formed_def updateJobStatus_def broadcastJobUpdate_def Let_def
        distinct_update split: option.splits)

lemma well_formed_addJob: "well_formed s \<Longrightarrow> well_formed (addJob job s)"
  by (simp add: well_formed_def addJob_def broadcastJobUpdate_def distinct_update)

lemma well_formed_broadcastProgress [simp]:
  "well_formed (broadcastProgress f p s) = well_formed s"
  by (simp add: well_formed_def broadcastProgress_def)

lemma well_formed_cancelProcessing [simp]:
  "well_formed (cancelProcessing f s) = well_formed s"
  by (simp add: well_formed_def cancelProcessing_def)

lemma well_formed_tasks [simp]: "well_formed (s\<lparr>tasks := t\<rparr>) = well_formed s"
  by (simp add: well_formed_def)

lemma well_formed_write:
  "well_formed s \<Longrightarrow> well_formed (s\<lparr>disk := writeFileSync (disk s) p m\<rparr>)"
  by (simp add: well_formed_def writeFileSync_def distinct_update)

lemma well_formed_step:
  assumes "well_formed s" and "step ev s = Some s'"
  shows "well_formed s'"
proof (cases ev)
  case (Upload upl fileId now)
  with assms show ?thesis
    by (cases upl)
       (auto simp: upload_route_def Let_def intro!: well_formed_addJob well_formed_write)
next
  case (ProcessReq f b m)
  with assms show ?thesis
    by (auto simp: process_route_def processVideoAsync_begin_def Let_def
          intro!: well_formed_updateJobStatus split: option.splits if_splits)
next
  case (CancelReq f)
  with assms show ?thesis
    by (auto simp: cancel_route_def intro!: well_formed_updateJobStatus
          split: option.splits if_splits)
next
  case (DeleteReq f)
  with assms show ?thesis
    by (auto simp: delete_route_def intro!: well_formed_removeJob split: option.splits)
next
  case (CleanupTick now now' e)
  with assms show ?thesis by (auto intro!: well_formed_cleanup)
next
  case (DetectResolves i)
  with assms show ?thesis
    by (auto simp: processVideoAsync_detected_def split: if_splits)
next
  case (DetectRejects i)
  with assms show ?thesis
    by (auto simp: processVideoAsync_catch_def drop_task_def
          intro!: well_formed_updateJobStatus split: if_splits)
next
  case (ProgressReport i v)
  with assms show ?thesis by (auto simp: onProgress_def split: if_splits)
next
  case (TranscodeResolves i ts uid now)
  with assms show ?thesis
    by (auto simp: processVideoAsync_done_def drop_task_def Let_def
          intro!: well_formed_updateJobStatus well_formed_write split: if_splits)
next
  case (TranscodeRejects i)
  with assms show ?thesis
    by (auto simp: processVideoAsync_catch_def drop_task_def
          intro!: well_formed_updateJobStatus split: if_splits)
qed

lemma well_formed_exec: "well_formed s \<Longrightarrow> exec es s = Some s' \<Longrightarrow> well_formed s'"
  by (induction es arbitrary: s) (auto split: option.splits dest: well_formed_step)

lemma well_formed_initial: "well_formed initial_state"
  by (simp add: well_formed_def initial_state_def)

section \<open>Cancellation and terminal states\<close>

lemma exec_cancel_race: "exec cancel_race initial_state = Some finished_state"
  by code_simp

lemma getJob_uploaded: "getJob ''job-1'' uploaded_state = Some job1"
  by code_simp

lemma getJob_cancelled: "getJob ''job-1'' cancelled_state = Some (job1\<lparr>status := failed\<rparr>)"
  by code_simp


lemma getJob_finished:
  "getJob ''job-1'' finished_state = Some (job1\<lparr>status := completed, outputPath := Some output_path\<rparr>)"
  by code_simp

lemma status_job1: "status job1 = processing"
  by (simp add: job1_def)




text \<open>
  C2, as the code has it. For a job that is \<open>completed\<close> or \<open>failed\<close>, a cancel request
  is refused and changes nothing, but a process request is accepted: the guard of the
  process route refuses only \<open>processing\<close> jobs, and the job goes back to \<open>processing\<close>.
\<close>

theorem terminal_job_transitions:
  assumes "getJob f s = Some job" and "status job \<noteq> processing"
  shows "cancel_route f s = (Failure 400 ''File is not currently being processed'', s)
    \<and> fst (process_route f b m s) = ProcessingStarted f
    \<and> getJob f (snd (process_route f b m s)) = Some (job\<lparr>status := processing\<rparr>)"
  using assms
  by (simp add: cancel_route_def process_route_def processVideoAsync_begin_def Let_def
        getJob_updateJobStatus)

theorem terminal_job_transitions_witness:
  "getJob ''job-1'' cancelled_state = Some (job1\<lparr>status := failed\<rparr>)
    \<and> status (job1\<lparr>status := failed\<rparr>) \<noteq> processing
    \<and> cancel_route ''job-1'' cancelled_state
        = (Failure 400 ''File is not currently being processed'', cancelled_state)
    \<and> fst (process_route ''job-1'' ''medium'' ''auto'' cancelled_state) = ProcessingStarted ''job-1''
    \<and> getJob ''job-1'' (snd (process_route ''job-1'' ''medium'' ''auto'' cancelled_state)) = Some job1"
proof -
  have n: "status (job1\<lparr>status := failed\<rparr>) \<noteq> processing" by simp
  have j: "job1\<lparr>status := failed, status := processing\<rparr> = job1" by (simp add: job1_def)
  from terminal_job_transitions [OF getJob_cancelled n, of "''medium''" "''auto''"]
  show ?thesis using getJob_cancelled j by simp
qed

text \<open>
  C2 as stated fails: the job of \<open>cancelled_state\<close> is \<open>failed\<close> and the job of
  \<open>finished_state\<close> is \<open>completed\<close>; a process request moves either back to
  \<open>processing\<close>.
\<close>

theorem terminal_is_final_counterexample:
  "map_option status (getJob ''job-1'' cancelled_state) = Some failed
    \<and> fst (process_route ''job-1'' ''medium'' ''auto'' cancelled_state) = ProcessingStarted ''job-1''
    \<and> map_option status (getJob ''job-1'' reprocessing_state) = Some processing
    \<and> map_option status (getJob ''job-1'' finished_state) = Some completed
    \<and> fst (process_route ''job-1'' ''medium'' ''auto'' finished_state) = ProcessingStarted ''job-1''
    \<and> map_option status (getJob ''job-1'' reprocessed_state) = Some processing"
proof -
  have "map_option status (getJob ''job-1'' cancelled_state) = Some failed" by code_simp
  moreover have "fst (process_route ''job-1'' ''medium'' ''auto'' cancelled_state)
      = ProcessingStarted ''job-1''" by code_simp
  moreover have "map_option status (getJob ''job-1'' reprocessing_state) = Some processing"
    by code_simp
  moreover have "map_option status (getJob ''job-1'' finished_state) = Some completed"
    by code_simp
  moreover have "fst (process_route ''job-1'' ''medium'' ''auto'' finished_state)
      = ProcessingStarted ''job-1''" by code_simp
  moreover have "map_option status (getJob ''job-1'' reprocessed_state) = Some processing"
    by code_simp
  ultimately show ?thesis by blast
qed

section \<open>Queries and expiry\<close>

text \<open>
  C3, as the code has it. \<^verbatim>\<open>getJob\<close> and the status routes do not look at the clock: they
  answer ``not found'' exactly when the registry has no record for the id, and report a
  stored record whatever the time, with its stored status and the time remaining cut off
  at 0. So a record whose \<open>expiresAt\<close> has passed is still reported, with the time
  remaining 0, until a sweep removes it; after a sweep run past \<open>expiresAt\<close> the answer
  is ``not found''.
\<close>

theorem query_reports_stored_record:
  "(getJob f s = None \<longrightarrow>
      video_status_route f now s = not_found \<and> upload_status_route f now s = not_found)
    \<and> (getJob f s = Some job \<longrightarrow>
      video_status_route f now s = StatusOk
        \<lparr>st_fileId = job_id job, st_status = status job, st_createdAt = createdAt job,
         st_expiresAt = expiresAt job, timeRemaining = max 0 (expiresAt job - now),
         downloadUrl = (if truthy (outputPath job)
                        then Some (''/api/video/download/'' @ f) else None),
         st_progress = Some (if status job = processing
                             then getProcessingProgress f s else Fin 100)\<rparr>
      \<and> upload_status_route f now s = StatusOk
        \<lparr>st_fileId = job_id job, st_status = status job, st_createdAt = createdAt job,
         st_expiresAt = expiresAt job, timeRemaining = max 0 (expiresAt job - now),
         downloadUrl = (if truthy (outputPath job)
                        then Some (''/api/video/download/'' @ f) else None),
         st_progress = None\<rparr>
      \<and> video_status_route f now s \<noteq> not_found
      \<and> upload_status_route f now s \<noteq> not_found)
    \<and> (getJob f s = Some job \<and> expiresAt job < now \<longrightarrow>
      max 0 (expiresAt job - now) = 0
      \<and> getJob f (cleanup now now' e s) = None
      \<and> video_status_route f later (cleanup now now' e s) = not_found
      \<and> upload_status_route f later (cleanup now now' e s) = not_found)"
  by (auto simp: video_status_route_def upload_status_route_def getJob_cleanup
        expired_in_expiredJobs not_found_def)

theorem query_reports_stored_record_witness:
  "getJob ''job-2'' uploaded_state = None
    \<and> video_status_route ''job-2'' 901002 uploaded_state = not_found
    \<and> upload_status_route ''job-2'' 901002 uploaded_state = not_found
    \<and> getJob ''job-1'' uploaded_state = Some job1
    \<and> video_status_route ''job-1'' 2000 uploaded_state = StatusOk
        \<lparr>st_fileId = ''job-1'', st_status = processing, st_createdAt = 1001,
         st_expiresAt = 901001, timeRemaining = 899001, downloadUrl = None,
         st_progress = Some (Fin 0)\<rparr>
    \<and> upload_status_route ''job-1'' 2000 uploaded_state = StatusOk
        \<lparr>st_fileId = ''job-1'', st_status = processing, st_createdAt = 1001,
         st_expiresAt = 901001, timeRemaining = 899001, downloadUrl = None,
         st_progress = None\<rparr>
    \<and> expiresAt job1 < 901002
    \<and> getJob ''job-1'' (cleanup 901002 901003 900000 uploaded_state) = None
    \<and> video_status_route ''job-1'' 901004 (cleanup 901002 901003 900000 uploaded_state) = not_found
    \<and> upload_status_route ''job-1'' 901004 (cleanup 901002 901003 900000 uploaded_state) = not_found"
proof -
  have n: "getJob ''job-2'' uploaded_state = None" by code_simp
  have e: "expiresAt job1 < 901002" by (simp add: job1_def)
  have p: "getProcessingProgress ''job-1'' uploaded_state = Fin 0" by code_simp
  from query_reports_stored_record [of "''job-2''" uploaded_state 901002 job1 901003 900000 901004]
    query_reports_stored_record [of "''job-1''" uploaded_state 2000 job1 901003 900000 901004]
    query_reports_stored_record [of "''job-1''" uploaded_state 901002 job1 901003 900000 901004]
  show ?thesis using n e p getJob_uploaded by (simp add: job1_def truthy_def)
qed

text \<open>
  C3 as stated fails: the job admitted at time 1001 expires at 901001, no sweep has run,
  and the status query at time 901002 reports it as \<open>processing\<close>.
\<close>

theorem expired_query_counterexample:
  "getJob ''job-1'' uploaded_state = Some job1
    \<and> expiresAt job1 < 901002
    \<and> video_status_route ''job-1'' 901002 uploaded_state = StatusOk
        \<lparr>st_fileId = ''job-1'', st_status = processing, st_createdAt = 1001,
         st_expiresAt = 901001, timeRemaining = 0, downloadUrl = None,
         st_progress = Some (Fin 0)\<rparr>"
proof -
  have "video_status_route ''job-1'' 901002 uploaded_state = StatusOk
        \<lparr>st_fileId = ''job-1'', st_status = processing, st_createdAt = 1001,
         st_expiresAt = 901001, timeRemaining = 0, downloadUrl = None,
         st_progress = Some (Fin 0)\<rparr>"
    by code_simp
  moreover have "expiresAt job1 < 901002" by (simp add: job1_def)
  ultimately show ?thesis using getJob_uploaded by blast
qed

text \<open>
  C6, as the code has it. The sweep compares with \<^verbatim>\<open>now > job.expiresAt\<close>: it removes
  exactly the records whose \<open>expiresAt\<close> is strictly before \<open>now\<close>, a record that expires
  at \<open>now\<close> stays. For every removed record the input file and, when set, the output file
  are gone afterwards, unless their deletion failed.
\<close>

theorem cleanup_removes_strictly_expired:
  assumes "distinct (map fst (activeJobs s))"
  shows "getJob g (cleanup now now' e s) =
           (case getJob g s of
              None \<Rightarrow> None
            | Some j \<Rightarrow> if expiresAt j < now then None else Some j)
    \<and> (getJob g s = Some j \<and> expiresAt j < now \<longrightarrow>
           gone (disk (cleanup now now' e s)) (filePath j)
           \<and> (truthy (outputPath j) \<longrightarrow> gone (disk (cleanup now now' e s)) (the (outputPath j))))"
proof
  show "getJob g (cleanup now now' e s) =
           (case getJob g s of
              None \<Rightarrow> None
            | Some j \<Rightarrow> if expiresAt j < now then None else Some j)"
    using expiredJobs_iff [OF assms, of g now]
    by (auto simp: getJob_cleanup split: option.splits)
  show "getJob g s = Some j \<and> expiresAt j < now \<longrightarrow>
           gone (disk (cleanup now now' e s)) (filePath j)
           \<and> (truthy (outputPath j) \<longrightarrow> gone (disk (cleanup now now' e s)) (the (outputPath j)))"
  proof
    assume a: "getJob g s = Some j \<and> expiresAt j < now"
    then have "g \<in> set (expiredJobs now s)" by (auto intro: expired_in_expiredJobs)
    from foldl_removeJob_files [OF this, of s j] a
    show "gone (disk (cleanup now now' e s)) (filePath j)
           \<and> (truthy (outputPath j) \<longrightarrow> gone (disk (cleanup now now' e s)) (the (outputPath j)))"
      unfolding cleanup_def using gone_cleanupTempFiles by blast
  qed
qed

theorem cleanup_removes_strictly_expired_witness:
  "distinct (map fst (activeJobs finished_state))
    \<and> getJob ''job-1'' finished_state = Some (job1\<lparr>status := completed, outputPath := Some output_path\<rparr>)
    \<and> expiresAt (job1\<lparr>status := completed, outputPath := Some output_path\<rparr>) < 901002
    \<and> truthy (Some output_path)
    \<and> getJob ''job-1'' (cleanup 901002 901003 900000 finished_state) = None
    \<and> gone (disk (cleanup 901002 901003 900000 finished_state)) upload_path
    \<and> gone (disk (cleanup 901002 901003 900000 finished_state)) output_path"
proof -
  have d: "distinct (map fst (activeJobs finished_state))" by code_simp
  have e: "expiresAt (job1\<lparr>status := completed, outputPath := Some output_path\<rparr>) < 901002"
    by (simp add: job1_def)
  have t: "truthy (Some output_path)" by (simp add: output_path_def)
  have f: "filePath job1 = upload_path" by (simp add: job1_def)
  from cleanup_removes_strictly_expired [OF d, of "''job-1''" 901002 901003 900000
      "job1\<lparr>status := completed, outputPath := Some output_path\<rparr>"]
  show ?thesis using d e t f getJob_finished by simp
qed

text \<open>
  C6 as stated fails: the record that expires at 901001 is still in the registry after the
  sweep of time 901001.
\<close>

theorem cleanup_at_expiry_counterexample:
  "getJob ''job-1'' uploaded_state = Some job1
    \<and> expiresAt job1 = 901001
    \<and> getJob ''job-1'' (cleanup 901001 901001 900000 uploaded_state) = Some job1"
proof -
  have "getJob ''job-1'' (cleanup 901001 901001 900000 uploaded_state) = Some job1" by code_simp
  moreover have "expiresAt job1 = 901001" by (simp add: job1_def)
  ultimately show ?thesis using getJob_uploaded by blast
qed




section \<open>Admission and the output path\<close>

text \<open>
  C8, as the code has it. \<^verbatim>\<open>addJob\<close> has no check for an existing id and never fails:
  it stores the given record under its id, replacing the record that was there, and
  broadcasts it. Records of other ids are unchanged and the ids stay distinct.
\<close>

theorem addJob_replaces:
  "getJob (job_id job) (addJob job s) = Some job
    \<and> (g \<noteq> job_id job \<longrightarrow> getJob g (addJob job s) = getJob g s)
    \<and> (distinct (map fst (activeJobs s)) \<longrightarrow> distinct (map fst (activeJobs (addJob job s))))
    \<and> outbox (addJob job s) = outbox s @ [JobUpdateMsg (job_id job) (Stored (status job))]"
  by (simp add: getJob_addJob) (simp add: addJob_def broadcastJobUpdate_def broadcast_def distinct_update)

theorem addJob_replaces_witness:
  "''job-2'' \<noteq> job_id duplicate_job
    \<and> distinct (map fst (activeJobs uploaded_state))
    \<and> getJob (job_id duplicate_job) (addJob duplicate_job uploaded_state) = Some duplicate_job
    \<and> getJob ''job-2'' (addJob duplicate_job uploaded_state) = getJob ''job-2'' uploaded_state
    \<and> distinct (map fst (activeJobs (addJob duplicate_job uploaded_state)))"
proof -
  have n: "''job-2'' \<noteq> job_id duplicate_job" by (simp add: duplicate_job_def)
  have d: "distinct (map fst (activeJobs uploaded_state))" by code_simp
  from addJob_replaces [of duplicate_job uploaded_state "''job-2''"]
  show ?thesis using n d by simp
qed

text \<open>
  C8 as stated fails: \<open>job-1\<close> is in the registry, a second admission under the same id
  goes through and the registry then holds the new record in place of the old one.
\<close>

theorem addJob_duplicate_counterexample:
  "getJob ''job-1'' uploaded_state = Some job1
    \<and> job_id duplicate_job = ''job-1''
    \<and> getJob ''job-1'' (addJob duplicate_job uploaded_state) = Some duplicate_job
    \<and> duplicate_job \<noteq> job1"
proof -
  have "job_id duplicate_job = ''job-1''" by (simp add: duplicate_job_def)
  moreover have "getJob ''job-1'' (addJob duplicate_job uploaded_state) = Some duplicate_job"
    by code_simp
  moreover have "duplicate_job \<noteq> job1" by (simp add: duplicate_job_def job1_def)
  ultimately show ?thesis using getJob_uploaded by blast
qed

text \<open>
  C4, as the code has it. In every state reached from an empty registry, a record that
  is \<open>completed\<close> has its \<open>outputPath\<close> set. The converse does not hold:
  \<^verbatim>\<open>updateJobStatus\<close> never clears the field, so a job processed again after it was
  completed keeps the old path while it is \<open>processing\<close> or \<open>failed\<close>.
\<close>

theorem completed_has_outputPath:
  assumes "activeJobs s0 = []" and "exec es s0 = Some s" and "getJob k s = Some job"
    and "status job = completed"
  shows "truthy (outputPath job)"
proof -
  from assms(1) have "outputs_recorded s0" by (simp add: outputs_recorded_def)
  then have "outputs_recorded s" using assms(2) by (rule outputs_recorded_exec)
  moreover from assms(3) have "(k, job) \<in> set (activeJobs s)"
    unfolding getJob_def by (rule map_of_SomeD)
  ultimately show ?thesis using assms(4) by (auto simp: outputs_recorded_def list_all_iff)
qed

theorem completed_has_outputPath_witness:
  "activeJobs initial_state = []
    \<and> exec cancel_race initial_state = Some finished_state
    \<and> getJob ''job-1'' finished_state = Some (job1\<lparr>status := completed, outputPath := Some output_path\<rparr>)
    \<and> status (job1\<lparr>status := completed, outputPath := Some output_path\<rparr>) = completed
    \<and> truthy (outputPath (job1\<lparr>status := completed, outputPath := Some output_path\<rparr>))"
proof -
  have i: "activeJobs initial_state = []" by (simp add: initial_state_def)
  have c: "status (job1\<lparr>status := completed, outputPath := Some output_path\<rparr>) = completed"
    by simp
  from completed_has_outputPath [OF i exec_cancel_race getJob_finished c]
  show ?thesis using i exec_cancel_race getJob_finished c by blast
qed

text \<open>
  C4 as stated fails: after the run \<open>cancel_race\<close> the job is completed with an output
  path; the next process request makes it \<open>processing\<close> and the output path is still
  set.
\<close>

theorem outputPath_iff_completed_counterexample:
  "exec (cancel_race @ [ProcessReq ''job-1'' ''medium'' ''auto'']) initial_state = Some reprocessed_state
    \<and> getJob ''job-1'' reprocessed_state = Some (job1\<lparr>outputPath := Some output_path\<rparr>)
    \<and> status (job1\<lparr>outputPath := Some output_path\<rparr>) = processing
    \<and> outputPath (job1\<lparr>outputPath := Some output_path\<rparr>) = Some output_path"
proof -
  have "exec (cancel_race @ [ProcessReq ''job-1'' ''medium'' ''auto'']) initial_state
      = Some reprocessed_state" by code_simp
  moreover have "getJob ''job-1'' reprocessed_state = Some (job1\<lparr>outputPath := Some output_path\<rparr>)"
    by code_simp
  ultimately show ?thesis by (simp add: job1_def)
qed

text \<open>
  C5. The first process request on a freshly uploaded job is refused: the upload route
  admits the job with the status \<open>processing\<close>, and the process route answers 400,
  ``File is already being processed'', to every job with that status. No processing has
  been started by then, and none is started by the request.
\<close>

theorem process_rejects_fresh_upload:
  "process_route f b m (snd (upload_route (Some p) f now s))
     = (Failure 400 ''File is already being processed'', snd (upload_route (Some p) f now s))"
  by (simp add: process_route_def upload_route_def getJob_addJob Let_def)

text \<open>
  C10. The status route of the video router reports the progress 100 for every tracked
  job that is not \<open>processing\<close>, a failed one included, and the progress 0 for a
  \<open>processing\<close> job that has no entry in \<open>processingProgress\<close>.
\<close>

theorem status_route_progress:
  assumes "getJob f s = Some job"
  shows "(status job \<noteq> processing \<longrightarrow>
            (case video_status_route f now s of StatusOk d \<Rightarrow> st_progress d | _ \<Rightarrow> None) = Some (Fin 100))
    \<and> (status job = processing \<and> map_of (processingProgress s) f = None \<longrightarrow>
            (case video_status_route f now s of StatusOk d \<Rightarrow> st_progress d | _ \<Rightarrow> None) = Some (Fin 0))"
  using assms by (simp add: video_status_route_def getProcessingProgress_def)

theorem status_route_progress_witness:
  "getJob ''job-1'' cancelled_state = Some (job1\<lparr>status := failed\<rparr>)
    \<and> status (job1\<lparr>status := failed\<rparr>) \<noteq> processing
    \<and> (case video_status_route ''job-1'' 2000 cancelled_state of
          StatusOk d \<Rightarrow> st_progress d | _ \<Rightarrow> None) = Some (Fin 100)
    \<and> getJob ''job-1'' uploaded_state = Some job1
    \<and> status job1 = processing
    \<and> map_of (processingProgress uploaded_state) ''job-1'' = None
    \<and> (case video_status_route ''job-1'' 2000 uploaded_state of
          StatusOk d \<Rightarrow> st_progress d | _ \<Rightarrow> None) = Some (Fin 0)"
proof -
  have n: "status (job1\<lparr>status := failed\<rparr>) \<noteq> processing" by simp
  have p: "map_of (processingProgress uploaded_state) ''job-1'' = None" by code_simp
  from status_route_progress [OF getJob_cancelled, of 2000]
    status_route_progress [OF getJob_uploaded, of 2000]
  show ?thesis using n p status_job1 getJob_cancelled getJob_uploaded by simp
qed

end
